theory Spec2Isabelle
  imports Main
begin

section \<open>Python strings\<close>

text \<open>
  A Python \<open>str\<close> is a sequence of Unicode code points, so it is modelled as a list of
  natural numbers; \<open>lit\<close> turns an ASCII literal into that representation. The two
  non-ASCII characters of the source's literals are given by their code points.
\<close>

type_synonym ustr = "nat list"

definition lit :: "string \<Rightarrow> ustr" where
  "lit s = map of_char s"

definition check_mark :: ustr where
  "check_mark = [0x2705]"

definition cross_mark :: ustr where
  "cross_mark = [0x274C]"

text \<open>
  \<open>str.isspace\<close> on one code point: the code points with bidirectional class WS, B or S,
  or category Zs, as CPython's \<open>_PyUnicode_IsWhitespace\<close> lists them.
\<close>

definition isspace :: "nat \<Rightarrow> bool" where
  "isspace c \<longleftrightarrow>
     (0x09 \<le> c \<and> c \<le> 0x0D) \<or> (0x1C \<le> c \<and> c \<le> 0x20) \<or> c = 0x85 \<or> c = 0xA0 \<or>
     c = 0x1680 \<or> (0x2000 \<le> c \<and> c \<le> 0x200A) \<or> c = 0x2028 \<or> c = 0x2029 \<or>
     c = 0x202F \<or> c = 0x205F \<or> c = 0x3000"

text \<open>\<open>s.strip()\<close>: leading and trailing whitespace removed.\<close>

definition strip :: "ustr \<Rightarrow> ustr" where
  "strip s = rev (dropWhile isspace (rev (dropWhile isspace s)))"

text \<open>
  \<open>s.lower()\<close>. CPython lower-cases a string of ASCII characters byte by byte
  (\<open>A\<close>..\<open>Z\<close> to \<open>a\<close>..\<open>z\<close>) and hands every other string to the Unicode case
  operation of the interpreter, which depends on the Unicode tables of the running
  Python version: that operation is the parameter \<open>U\<close>.
\<close>

definition isascii :: "ustr \<Rightarrow> bool" where
  "isascii s \<longleftrightarrow> list_all (\<lambda>c. c < 0x80) s"

definition ascii_lower :: "nat \<Rightarrow> nat" where
  "ascii_lower c = (if 0x41 \<le> c \<and> c \<le> 0x5A then c + 0x20 else c)"

definition lower :: "(ustr \<Rightarrow> ustr) \<Rightarrow> ustr \<Rightarrow> ustr" where
  "lower U s = (if isascii s then map ascii_lower s else U s)"

text \<open>\<open>w in s\<close> on strings: \<open>w\<close> occurs in \<open>s\<close> as a contiguous substring.\<close>

fun starts_with :: "ustr \<Rightarrow> ustr \<Rightarrow> bool" where
  "starts_with s [] = True"
| "starts_with [] (c # w) = False"
| "starts_with (d # s) (c # w) = (d = c \<and> starts_with s w)"

fun isin :: "ustr \<Rightarrow> ustr \<Rightarrow> bool" where
  "isin w [] = (w = [])"
| "isin w (d # s) = (starts_with (d # s) w \<or> isin w s)"

section \<open>The generation collaborator\<close>

text \<open>
  An exception carries whether it is an instance of \<open>Exception\<close> (the handlers catch
  \<open>Exception\<close>, not \<open>BaseException\<close>) and its message \<open>str(e)\<close>. A response of the
  generative model has a \<open>text\<close> property, which may itself raise.
\<close>

datatype exn = Exn (is_Exception: bool) (str: ustr)

datatype response = Response (response_text: "exn + ustr")

text \<open>
  The shared model handle \<open>gemini_model\<close> is a function of the external service's state
  and the prompt; it raises or returns a response, and the service moves to a new state.
  The world of a handler is that state and the trace of the prompts sent so far.
\<close>

type_synonym 's GenerativeModel = "'s \<Rightarrow> ustr \<Rightarrow> (exn + response) \<times> 's"

record 's world =
  service :: 's
  calls :: "ustr list"

definition generate_content ::
  "'s GenerativeModel \<Rightarrow> ustr \<Rightarrow> 's world \<Rightarrow> (exn + response) \<times> 's world" where
  "generate_content gemini_model prompt w =
     (case gemini_model (service w) prompt of
        (r, s') \<Rightarrow> (r, \<lparr>service = s', calls = calls w @ [prompt]\<rparr>))"

text \<open>
  A JSON body is a dictionary from keys to strings. A handler either returns a body
  (\<open>Inr\<close>) or lets an exception escape (\<open>Inl\<close>); FastAPI answers a returned body with
  status 200 and an escaped exception with status 500.
\<close>

type_synonym body = "ustr \<rightharpoonup> ustr"

definition status_code :: "exn + body \<Rightarrow> nat" where
  "status_code r = (case r of Inr b \<Rightarrow> 200 | Inl e \<Rightarrow> 500)"

section \<open>Health check\<close>

definition root :: "'s world \<Rightarrow> (exn + body) \<times> 's world" where
  "root w = (Inr [lit ''message'' \<mapsto> check_mark @ lit '' SnapBoost AI backend is running!''], w)"

section \<open>Caption / idea / launch plan\<close>

record CaptionRequest =
  event :: ustr
  choice :: ustr

definition caption_prompt :: "(ustr \<Rightarrow> ustr) \<Rightarrow> CaptionRequest \<Rightarrow> ustr" where
  "caption_prompt U request =
     (let choice = lower U (strip (choice request)) in
      if choice = lit ''caption'' then
        lit ''Write a short, catchy social media caption for the launch of: '' @ event request
      else if choice = lit ''idea'' then
        lit ''Give me creative marketing ideas for the launch of: '' @ event request
      else if choice = lit ''launch plan'' then
        lit ''Create a simple and effective launch plan for: '' @ event request
      else
        lit ''Tell me something helpful related to: '' @ event request)"

definition generate_caption ::
  "(ustr \<Rightarrow> ustr) \<Rightarrow> 's GenerativeModel \<Rightarrow> CaptionRequest \<Rightarrow> 's world \<Rightarrow> (exn + body) \<times> 's world" where
  "generate_caption U gemini_model request w =
     (let prompt = caption_prompt U request in
      case generate_content gemini_model prompt w of
        (Inr response, w') \<Rightarrow>
          (case response_text response of
             Inr t \<Rightarrow> (Inr [lit ''caption'' \<mapsto> strip t], w')
           | Inl e \<Rightarrow>
               (if is_Exception e
                then Inr [lit ''error'' \<mapsto> cross_mark @ lit '' Failed to generate caption. Reason: '' @ str e]
                else Inl e, w'))
      | (Inl e, w') \<Rightarrow>
          (if is_Exception e
           then Inr [lit ''error'' \<mapsto> cross_mark @ lit '' Failed to generate caption. Reason: '' @ str e]
           else Inl e, w'))"

section \<open>Hashtag generator\<close>

record HashtagRequest =
  caption :: ustr

definition hashtags_prompt :: "HashtagRequest \<Rightarrow> ustr" where
  "hashtags_prompt data =
     lit ''\<newline>'' @
     lit ''    Generate a list of high-engagement social media hashtags based on the following caption. \<newline>'' @
     lit ''    Avoid spaces and return only the hashtags in Python list format.\<newline>'' @
     lit ''    Caption: '' @ caption data @ lit ''\<newline>'' @
     lit ''    ''"

definition generate_hashtags ::
  "'s GenerativeModel \<Rightarrow> HashtagRequest \<Rightarrow> 's world \<Rightarrow> (exn + body) \<times> 's world" where
  "generate_hashtags gemini_model data w =
     (let prompt = hashtags_prompt data in
      case generate_content gemini_model prompt w of
        (Inr response, w') \<Rightarrow>
          (case response_text response of
             Inr t \<Rightarrow> (Inr [lit ''hashtags'' \<mapsto> strip t], w')
           | Inl e \<Rightarrow> (if is_Exception e then Inr [lit ''error'' \<mapsto> str e] else Inl e, w'))
      | (Inl e, w') \<Rightarrow> (if is_Exception e then Inr [lit ''error'' \<mapsto> str e] else Inl e, w'))"

section \<open>Idea generator\<close>

record IdeaRequest =
  platform :: ustr
  niche :: ustr
  audience_type :: ustr

definition ideas_prompt :: "IdeaRequest \<Rightarrow> ustr" where
  \<open>ideas_prompt data =
     lit ''\<newline>'' @
     lit ''    You are a creative AI assistant for content creators. Generate 10 unique and viral content ideas for '' @
       IdeaRequest.platform data @ lit '' creators \<newline>'' @
     lit ''    in the "'' @ niche data @
       lit ''" niche. Each idea should be engaging, suitable for the '' @ audience_type data @
       lit '', and relevant to current trends.\<newline>'' @
     lit ''    Output the ideas as a numbered list.\<newline>'' @
     lit ''    ''\<close>

definition generate_ideas ::
  "'s GenerativeModel \<Rightarrow> IdeaRequest \<Rightarrow> 's world \<Rightarrow> (exn + body) \<times> 's world" where
  "generate_ideas gemini_model data w =
     (let prompt = ideas_prompt data in
      case generate_content gemini_model prompt w of
        (Inr response, w') \<Rightarrow>
          (case response_text response of
             Inr t \<Rightarrow> (Inr [lit ''ideas'' \<mapsto> strip t], w')
           | Inl e \<Rightarrow>
               (if is_Exception e
                then Inr [lit ''error'' \<mapsto> cross_mark @ lit '' Failed to generate ideas. Reason: '' @ str e]
                else Inl e, w'))
      | (Inl e, w') \<Rightarrow>
          (if is_Exception e
           then Inr [lit ''error'' \<mapsto> cross_mark @ lit '' Failed to generate ideas. Reason: '' @ str e]
           else Inl e, w'))"

section \<open>Script generator\<close>

record ScriptInput =
  video_type :: ustr
  topic :: ustr

definition short_form :: "ustr \<Rightarrow> ustr \<Rightarrow> ustr" where
  \<open>short_form v t =
     lit ''\<newline>'' @
     lit ''        Generate an engaging script for a 1-minute '' @ v @
       lit '' about "'' @ t @ lit ''".\<newline>'' @
     lit ''        The script should have an attention-grabbing hook in the first few seconds,\<newline>'' @
     lit ''        use a casual and high-energy tone, include visual/action suggestions,\<newline>'' @
     lit ''        and end with a strong call to action.\<newline>'' @
     lit ''        ''\<close>

definition long_form :: "ustr \<Rightarrow> ustr" where
  \<open>long_form t =
     lit ''\<newline>'' @
     lit ''        Generate a detailed script for a YouTube video about "'' @ t @ lit ''".\<newline>'' @
     lit ''        The script should last about 10 minutes and include:\<newline>'' @
     lit ''        - Hook in the intro\<newline>'' @
     lit ''        - Structured explanation in sections\<newline>'' @
     lit ''        - Engaging storytelling tone\<newline>'' @
     lit ''        - Visual suggestions for each section\<newline>'' @
     lit ''        - Call to action at the end\<newline>'' @
     lit ''        Format the response as a script with timestamps.\<newline>'' @
     lit ''        ''\<close>

definition script_prompt :: "(ustr \<Rightarrow> ustr) \<Rightarrow> ScriptInput \<Rightarrow> ustr" where
  "script_prompt U data =
     (let video_type = lower U (strip (video_type data));
          topic = strip (ScriptInput.topic data) in
      if isin (lit ''short'') video_type \<or> isin (lit ''reel'') video_type
      then short_form video_type topic
      else long_form topic)"

definition generate_script ::
  "(ustr \<Rightarrow> ustr) \<Rightarrow> 's GenerativeModel \<Rightarrow> ScriptInput \<Rightarrow> 's world \<Rightarrow> (exn + body) \<times> 's world" where
  "generate_script U gemini_model data w =
     (let prompt = script_prompt U data in
      case generate_content gemini_model prompt w of
        (Inr response, w') \<Rightarrow>
          (case response_text response of
             Inr t \<Rightarrow> (Inr [lit ''script'' \<mapsto> strip t], w')
           | Inl e \<Rightarrow>
               (if is_Exception e
                then Inr [lit ''error'' \<mapsto> cross_mark @ lit '' Failed to generate script. Please try again later.'']
                else Inl e, w'))
      | (Inl e, w') \<Rightarrow>
          (if is_Exception e
           then Inr [lit ''error'' \<mapsto> cross_mark @ lit '' Failed to generate script. Please try again later.'']
           else Inl e, w'))"

section \<open>Thumbnail prompt generator\<close>

record ThumbnailPromptRequest =
  topic :: ustr
  style :: ustr
  platform :: ustr

definition thumbnail_prompt :: "ThumbnailPromptRequest \<Rightarrow> ustr" where
  \<open>thumbnail_prompt data =
     lit ''Generate a detailed and visually rich prompt for an AI image generator to create a thumbnail for a '' @
       ThumbnailPromptRequest.platform data @ lit '' video.\<newline>'' @
     lit ''Topic: "'' @ ThumbnailPromptRequest.topic data @ lit ''"\<newline>'' @
     lit ''Style: '' @ style data @ lit ''\<newline>'' @
     lit ''Focus on visual details like colors, elements, facial expressions, mood, typography, and composition.\<newline>'' @
     lit ''Avoid text in the prompt itself unless required.''\<close>

definition generate_thumbnail_prompt ::
  "'s GenerativeModel \<Rightarrow> ThumbnailPromptRequest \<Rightarrow> 's world \<Rightarrow> (exn + body) \<times> 's world" where
  "generate_thumbnail_prompt gemini_model data w =
     (let prompt = thumbnail_prompt data in
      case generate_content gemini_model prompt w of
        (Inr response, w') \<Rightarrow>
          (case response_text response of
             Inr t \<Rightarrow> (Inr [lit ''prompt'' \<mapsto> strip t], w')
           | Inl e \<Rightarrow> (if is_Exception e then Inr [lit ''error'' \<mapsto> str e] else Inl e, w'))
      | (Inl e, w') \<Rightarrow> (if is_Exception e then Inr [lit ''error'' \<mapsto> str e] else Inl e, w'))"

section \<open>Outcomes of the collaborator call\<close>

text \<open>
  The body of a handler's \<open>try\<close> block either reaches \<open>response.text\<close> with a string
  \<open>t\<close> (\<open>returns\<close>), or raises \<open>e\<close>, from \<open>generate_content\<close> or from the
  \<open>text\<close> property (\<open>raises\<close>). The failures of the collaborator (network,
  authentication, quota, malformed response) are instances of \<open>Exception\<close>; an outcome
  is \<open>ordinary\<close> when it is a success or such a failure.
\<close>


definition returns :: "'s GenerativeModel \<Rightarrow> 's world \<Rightarrow> ustr \<Rightarrow> ustr \<Rightarrow> bool" where
  "returns gemini_model w prompt t =
     (case fst (gemini_model (service w) prompt) of
        Inl e \<Rightarrow> False
      | Inr response \<Rightarrow> response_text response = Inr t)"

definition raises :: "'s GenerativeModel \<Rightarrow> 's world \<Rightarrow> ustr \<Rightarrow> exn \<Rightarrow> bool" where
  "raises gemini_model w prompt e =
     (case fst (gemini_model (service w) prompt) of
        Inl e' \<Rightarrow> e' = e
      | Inr response \<Rightarrow> response_text response = Inl e)"

definition ordinary :: "'s GenerativeModel \<Rightarrow> 's world \<Rightarrow> ustr \<Rightarrow> bool" where
  "ordinary gemini_model w prompt =
     (case fst (gemini_model (service w) prompt) of
        Inl e \<Rightarrow> is_Exception e
      | Inr response \<Rightarrow> (case response_text response of Inl e \<Rightarrow> is_Exception e | Inr t \<Rightarrow> True))"

section \<open>Case-insensitive containment\<close>

text \<open>
  A string \<open>s\<close> contains the word \<open>w\<close> case-insensitively when \<open>w\<close> occurs in
  the lower-cased \<open>s\<close>, that is \<open>w in s.lower()\<close>.
\<close>

definition contains_ci :: "(ustr \<Rightarrow> ustr) \<Rightarrow> ustr \<Rightarrow> ustr \<Rightarrow> bool" where
  "contains_ci U w s = isin w (lower U s)"

section \<open>Test doubles\<close>

text \<open>
  Three collaborators for the concrete instances below: one that answers every prompt with
  a fixed text, one whose call raises, and one whose response has no readable text. Each
  counts the requests it has served in its state.
\<close>

definition stub_model :: "nat GenerativeModel" where
  "stub_model s prompt = (Inr (Response (Inr (lit ''  Fresh kicks!  ''))), Suc s)"

definition failing_model :: "nat GenerativeModel" where
  "failing_model s prompt = (Inl (Exn True (lit ''quota exceeded'')), Suc s)"

definition blocked_model :: "nat GenerativeModel" where
  "blocked_model s prompt = (Inr (Response (Inl (Exn True (lit ''no valid part'')))), Suc s)"

definition world0 :: "nat world" where
  "world0 = \<lparr>service = 0, calls = []\<rparr>"

section \<open>Substrings, stripping and lower-casing\<close>


lemma starts_with_iff: "starts_with s w \<longleftrightarrow> (\<exists>q. s = w @ q)"
  by (induction s w rule: starts_with.induct) auto

lemma isin_iff: "isin w s \<longleftrightarrow> (\<exists>p q. s = p @ w @ q)"
proof (induction s)
  case Nil
  then show ?case by auto
next
  case (Cons d s)
  show ?case
  proof
    assume "isin w (d # s)"
    then consider "starts_with (d # s) w" | "isin w s" by auto
    then show "\<exists>p q. d # s = p @ w @ q"
    proof cases
      case 1
      then obtain q where "d # s = w @ q" by (auto simp: starts_with_iff)
      then have "d # s = [] @ w @ q" by simp
      then show ?thesis by blast
    next
      case 2
      then obtain p q where "s = p @ w @ q" using Cons.IH by blast
      then have "d # s = (d # p) @ w @ q" by simp
      then show ?thesis by blast
    qed
  next
    assume "\<exists>p q. d # s = p @ w @ q"
    then obtain p q where pq: "d # s = p @ w @ q" by blast
    show "isin w (d # s)"
    proof (cases p)
      case Nil
      then have "starts_with (d # s) w" using pq by (auto simp: starts_with_iff)
      then show ?thesis by simp
    next
      case (Cons c p')
      then have "s = p' @ w @ q" using pq by simp
      then have "isin w s" using Cons.IH by blast
      then show ?thesis by simp
    qed
  qed
qed

lemma isin_middle: "isin w (p @ w @ q)"
  by (auto simp: isin_iff)

lemma isin_suffix: "isin w (p @ w)"
  using isin_middle [of w p "[]"] by simp

lemma isin_rev: "isin (rev w) (rev s) = isin w s"
proof -
  have "(\<exists>p q. rev s = p @ rev w @ q) \<longleftrightarrow> (\<exists>p q. s = p @ w @ q)"
  proof
    assume "\<exists>p q. rev s = p @ rev w @ q"
    then obtain p q where "rev s = p @ rev w @ q" by blast
    then have "rev (rev s) = rev (p @ rev w @ q)" by simp
    then have "s = rev q @ w @ rev p" by simp
    then show "\<exists>p q. s = p @ w @ q" by blast
  next
    assume "\<exists>p q. s = p @ w @ q"
    then obtain p q where "s = p @ w @ q" by blast
    then have "rev s = rev q @ rev w @ rev p" by simp
    then show "\<exists>p q. rev s = p @ rev w @ q" by blast
  qed
  then show ?thesis by (simp add: isin_iff)
qed

lemma isin_dropWhile:
  assumes "w \<noteq> []" and "\<not> P (hd w)"
  shows "isin w (dropWhile P s) = isin w s"
proof (induction s)
  case Nil
  then show ?case by simp
next
  case (Cons d s)
  show ?case
  proof (cases "P d")
    case True
    have "\<not> starts_with (d # s) w"
      using assms True by (cases w) auto
    then show ?thesis using True Cons.IH by simp
  next
    case False
    then show ?thesis by simp
  qed
qed

lemma isin_strip:
  assumes "w \<noteq> []" and "\<not> isspace (hd w)" and "\<not> isspace (last w)"
  shows "isin w (strip s) = isin w s"
proof -
  have r: "rev w \<noteq> []" "\<not> isspace (hd (rev w))"
    using assms by (simp_all add: hd_rev)
  have "isin w (strip s) = isin (rev w) (dropWhile isspace (rev (dropWhile isspace s)))"
    unfolding strip_def using isin_rev [of w "rev (dropWhile isspace (rev (dropWhile isspace s)))"]
    by simp
  also have "\<dots> = isin (rev w) (rev (dropWhile isspace s))"
    using r by (rule isin_dropWhile)
  also have "\<dots> = isin w (dropWhile isspace s)"
    by (rule isin_rev)
  also have "\<dots> = isin w s"
    using assms(1,2) by (rule isin_dropWhile)
  finally show ?thesis .
qed

lemma isspace_ascii_lower: "isspace (ascii_lower c) = isspace c"
  by (auto simp: isspace_def ascii_lower_def)

lemma strip_map_ascii_lower: "strip (map ascii_lower s) = map ascii_lower (strip s)"
proof -
  have d: "dropWhile isspace (map ascii_lower xs) = map ascii_lower (dropWhile isspace xs)" for xs
    by (induction xs) (simp_all add: isspace_ascii_lower)
  show ?thesis
    unfolding strip_def by (simp add: d rev_map)
qed

lemma isascii_strip: "isascii s \<Longrightarrow> isascii (strip s)"
proof -
  assume "isascii s"
  then have a: "\<forall>c\<in>set s. c < 0x80" by (simp add: isascii_def list_all_iff)
  have "set (strip s) \<subseteq> set s"
  proof
    fix x assume "x \<in> set (strip s)"
    then have "x \<in> set (dropWhile isspace (rev (dropWhile isspace s)))"
      by (simp add: strip_def)
    then have "x \<in> set (rev (dropWhile isspace s))" by (rule set_dropWhileD)
    then have "x \<in> set (dropWhile isspace s)" by simp
    then show "x \<in> set s" by (rule set_dropWhileD)
  qed
  then show ?thesis using a by (auto simp: isascii_def list_all_iff)
qed

lemma dropWhile_all_prefix:
  "list_all P a \<Longrightarrow> ys \<noteq> [] \<Longrightarrow> \<not> P (hd ys) \<Longrightarrow> dropWhile P (a @ ys) = ys"
  by (induction a) (cases ys; simp)+

lemma strip_surrounded:
  assumes "list_all isspace a" and "list_all isspace b"
    and "v \<noteq> []" and "\<not> isspace (hd v)" and "\<not> isspace (last v)"
  shows "strip (a @ v @ b) = v"
proof -
  have "dropWhile isspace (a @ (v @ b)) = v @ b"
    using assms(1,3,4) by (intro dropWhile_all_prefix) simp_all
  then have 1: "dropWhile isspace (a @ v @ b) = v @ b" by simp
  have 2: "dropWhile isspace (rev b @ rev v) = rev v"
    using assms(2,3,5) by (intro dropWhile_all_prefix) (simp_all add: hd_rev list_all_iff)
  show ?thesis unfolding strip_def by (simp add: 1 2)
qed

lemma isascii_map_ascii_lower: "isascii (map ascii_lower v) = isascii v"
  by (induction v) (auto simp: isascii_def ascii_lower_def)

lemma lower_strip_variant:
  assumes "list_all isspace a" and "list_all isspace b" and "map ascii_lower v = k"
    and "k \<noteq> []" and "isascii k" and "\<not> isspace (hd k)" and "\<not> isspace (last k)"
  shows "lower U (strip (a @ v @ b)) = k"
proof -
  have v: "v \<noteq> []" using assms(3,4) by auto
  have "isspace (hd v) = isspace (hd k)"
    using assms(3) v by (auto simp: hd_map isspace_ascii_lower)
  moreover have "isspace (last v) = isspace (last k)"
    using assms(3) v by (auto simp: last_map isspace_ascii_lower)
  ultimately have "strip (a @ v @ b) = v"
    using assms(1,2,6,7) v by (simp add: strip_surrounded)
  moreover have "isascii v"
    using assms(3,5) isascii_map_ascii_lower by auto
  ultimately show ?thesis
    using assms(3) by (simp add: lower_def)
qed

section \<open>Template selection of the caption endpoint\<close>

lemma caption_branch:
  "lower U (strip (choice r)) = lit ''caption'' \<Longrightarrow>
   caption_prompt U r = lit ''Write a short, catchy social media caption for the launch of: '' @ event r"
  by (simp add: caption_prompt_def)

lemma idea_branch:
  "lower U (strip (choice r)) = lit ''idea'' \<Longrightarrow>
   caption_prompt U r = lit ''Give me creative marketing ideas for the launch of: '' @ event r"
  by (simp add: caption_prompt_def lit_def)

lemma launch_plan_branch:
  "lower U (strip (choice r)) = lit ''launch plan'' \<Longrightarrow>
   caption_prompt U r = lit ''Create a simple and effective launch plan for: '' @ event r"
  by (simp add: caption_prompt_def lit_def)

lemma fallback_branch:
  "lower U (strip (choice r)) \<notin> {lit ''caption'', lit ''idea'', lit ''launch plan''} \<Longrightarrow>
   caption_prompt U r = lit ''Tell me something helpful related to: '' @ event r"
  by (simp add: caption_prompt_def)

lemma isin_caption_template:
  "isin (lit ''catchy social media caption'')
     (lit ''Write a short, catchy social media caption for the launch of: '' @ e)"
proof -
  have "lit ''Write a short, catchy social media caption for the launch of: '' @ e
      = lit ''Write a short, '' @ lit ''catchy social media caption'' @ (lit '' for the launch of: '' @ e)"
    by (simp add: lit_def)
  then show ?thesis by (simp only: isin_middle)
qed

lemma isin_idea_template:
  "isin (lit ''creative marketing ideas'')
     (lit ''Give me creative marketing ideas for the launch of: '' @ e)"
proof -
  have "lit ''Give me creative marketing ideas for the launch of: '' @ e
      = lit ''Give me '' @ lit ''creative marketing ideas'' @ (lit '' for the launch of: '' @ e)"
    by (simp add: lit_def)
  then show ?thesis by (simp only: isin_middle)
qed

lemma isin_launch_plan_template:
  "isin (lit ''launch plan'') (lit ''Create a simple and effective launch plan for: '' @ e)"
proof -
  have "lit ''Create a simple and effective launch plan for: '' @ e
      = lit ''Create a simple and effective '' @ lit ''launch plan'' @ (lit '' for: '' @ e)"
    by (simp add: lit_def)
  then show ?thesis by (simp only: isin_middle)
qed

lemma keyword_facts:
  "k \<in> {lit ''caption'', lit ''idea'', lit ''launch plan''} \<Longrightarrow>
   k \<noteq> [] \<and> isascii k \<and> \<not> isspace (hd k) \<and> \<not> isspace (last k)"
  by (auto simp: lit_def isascii_def isspace_def)

section \<open>Template selection of the script endpoint\<close>

lemma contains_ci_ascii:
  assumes "isascii s"
  shows "contains_ci U w s \<longleftrightarrow> (\<exists>p u q. s = p @ u @ q \<and> map ascii_lower u = w)"
proof -
  have l: "lower U s = map ascii_lower s"
    using assms by (simp add: lower_def)
  have c: "contains_ci U w s \<longleftrightarrow> (\<exists>p' q'. map ascii_lower s = p' @ w @ q')"
    by (simp only: contains_ci_def l isin_iff)
  show ?thesis
  proof
    assume "contains_ci U w s"
    then obtain p' q' where "map ascii_lower s = p' @ (w @ q')"
      unfolding c by blast
    then have "\<exists>us vs. s = us @ vs \<and> p' = map ascii_lower us \<and> w @ q' = map ascii_lower vs"
      by (rule map_eq_append_conv [THEN iffD1])
    then obtain p r where pr: "s = p @ r" "w @ q' = map ascii_lower r"
      by blast
    from pr(2) have "map ascii_lower r = w @ q'"
      by (rule sym)
    then have "\<exists>us vs. r = us @ vs \<and> w = map ascii_lower us \<and> q' = map ascii_lower vs"
      by (rule map_eq_append_conv [THEN iffD1])
    then obtain u q where uq: "r = u @ q" "w = map ascii_lower u"
      by blast
    have "s = p @ u @ q \<and> map ascii_lower u = w"
      using pr(1) uq by simp
    then show "\<exists>p u q. s = p @ u @ q \<and> map ascii_lower u = w"
      by blast
  next
    assume "\<exists>p u q. s = p @ u @ q \<and> map ascii_lower u = w"
    then obtain p u q where "s = p @ u @ q" "map ascii_lower u = w"
      by blast
    then have "map ascii_lower s = map ascii_lower p @ w @ map ascii_lower q"
      by simp
    then show "contains_ci U w s"
      unfolding c by blast
  qed
qed

lemma lower_ascii_lower: "lower (map ascii_lower) s = map ascii_lower s"
  by (simp add: lower_def)

lemma lower_strip_ascii_lower:
  "lower (map ascii_lower) (strip s) = strip (lower (map ascii_lower) s)"
  by (simp add: lower_ascii_lower strip_map_ascii_lower)

lemma lower_strip_commute:
  assumes "isascii s \<or> (\<forall>x. lower U (strip x) = strip (lower U x))"
  shows "lower U (strip s) = strip (lower U s)"
proof (cases "isascii s")
  case True
  then show ?thesis
    by (simp add: lower_def isascii_strip strip_map_ascii_lower)
next
  case False
  then show ?thesis using assms by blast
qed

lemma isin_short_strip: "isin (lit ''short'') (strip s) = isin (lit ''short'') s"
  by (rule isin_strip) (simp_all add: lit_def isspace_def)

lemma isin_reel_strip: "isin (lit ''reel'') (strip s) = isin (lit ''reel'') s"
  by (rule isin_strip) (simp_all add: lit_def isspace_def)

lemma lit_append: "lit (a @ b) = lit a @ lit b"
  by (simp add: lit_def)

lemma short_form_neq_long_form: "short_form v t \<noteq> long_form t'"
proof
  assume e: "short_form v t = long_form t'"
  have 1: "lit ''        Generate an engaging script for a 1-minute ''
      = lit ''        Generate an'' @ lit '' engaging script for a 1-minute ''"
    unfolding lit_append [symmetric] by simp
  have 2: "lit ''        Generate a detailed script for a YouTube video about \"''
      = lit ''        Generate a '' @ lit ''detailed script for a YouTube video about \"''"
    unfolding lit_append [symmetric] by simp
  have "lit ''        Generate an'' = lit ''        Generate a ''"
    using e unfolding short_form_def long_form_def 1 2 by (simp add: lit_def)
  then show False by (simp add: lit_def)
qed

lemma script_prompt_short:
  "isin (lit ''short'') (lower U (strip (video_type data)))
     \<or> isin (lit ''reel'') (lower U (strip (video_type data))) \<Longrightarrow>
   script_prompt U data
     = short_form (lower U (strip (video_type data))) (strip (ScriptInput.topic data))"
  by (simp add: script_prompt_def Let_def)

lemma script_prompt_long:
  "\<not> (isin (lit ''short'') (lower U (strip (video_type data)))
     \<or> isin (lit ''reel'') (lower U (strip (video_type data)))) \<Longrightarrow>
   script_prompt U data = long_form (strip (ScriptInput.topic data))"
  by (simp add: script_prompt_def Let_def)

subsection \<open>Concrete script requests\<close>

lemma normalise_short: "lower U (strip (lit '' Short '')) = lit ''short''"
  by (simp add: lower_def strip_def isspace_def isascii_def ascii_lower_def lit_def)

lemma strip_cats: "strip (lit '' cats '') = lit ''cats''"
  by (simp add: strip_def isspace_def lit_def)

lemma script_prompt_short_cats:
  "script_prompt U \<lparr>video_type = lit '' Short '', topic = lit '' cats ''\<rparr>
     = short_form (lit ''short'') (lit ''cats'')"
proof -
  have "isin (lit ''short'') (lit ''short'')"
    using isin_middle [of "lit ''short''" "[]" "[]"] by simp
  then show ?thesis
    using script_prompt_short [of U "\<lparr>video_type = lit '' Short '', topic = lit '' cats ''\<rparr>"]
    by (simp add: normalise_short strip_cats)
qed

lemma short_form_raw_neq:
  "short_form (lit ''short'') (lit ''cats'') \<noteq> short_form (lit '' Short '') (lit '' cats '')"
proof
  assume "short_form (lit ''short'') (lit ''cats'') = short_form (lit '' Short '') (lit '' cats '')"
  then have "length (short_form (lit ''short'') (lit ''cats''))
      = length (short_form (lit '' Short '') (lit '' cats ''))"
    by simp
  then show False
    by (simp add: short_form_def lit_def)
qed

lemma script_prompt_youtube:
  "script_prompt U \<lparr>video_type = lit ''YouTube'', topic = lit ''cats''\<rparr> = long_form (lit ''cats'')"
proof -
  have n: "lower U (strip (lit ''YouTube'')) = lit ''youtube''"
    by (simp add: lower_def strip_def isspace_def isascii_def ascii_lower_def lit_def)
  have "\<not> (isin (lit ''short'') (lit ''youtube'') \<or> isin (lit ''reel'') (lit ''youtube''))"
    by (simp add: lit_def)
  moreover have "strip (lit ''cats'') = lit ''cats''"
    by (simp add: strip_def isspace_def lit_def)
  ultimately show ?thesis
    using script_prompt_long [of U "\<lparr>video_type = lit ''YouTube'', topic = lit ''cats''\<rparr>"] n
    by simp
qed

lemma long_form_contains_youtube: "isin (lit ''YouTube'') (long_form t)"
proof -
  have "lit ''        Generate a detailed script for a YouTube video about \"''
      = lit ''        Generate a detailed script for a '' @ lit ''YouTube'' @ lit '' video about \"''"
    unfolding lit_append [symmetric] by simp
  then have "\<exists>p q. long_form t = p @ lit ''YouTube'' @ q"
    unfolding long_form_def
    by (intro exI [of _ "lit ''\<newline>'' @ lit ''        Generate a detailed script for a ''"] exI) simp
  then show ?thesis
    by (simp only: isin_iff)
qed

lemma short_form_without_raw:
  "\<not> isin (lit '' cats '') (short_form (lit ''short'') (lit ''cats''))"
  "\<not> isin (lit '' Short '') (short_form (lit ''short'') (lit ''cats''))"
  by (simp_all add: short_form_def lit_def)

section \<open>Templates with holes\<close>

text \<open>
  A prompt built by appending fixed pieces and field values is a fixed template around the
  field values: the pieces between two fields can be collected into one affix.
\<close>

lemma template_one_field:
  "\<exists>a b. \<forall>x. l1 @ l2 @ l3 @ l4 @ h x @ l5 @ l6 = a @ h x @ b"
  by (rule exI [of _ "l1 @ l2 @ l3 @ l4"], rule exI [of _ "l5 @ l6"]) simp

lemma template_ideas:
  "\<exists>a b c d. \<forall>x. l1 @ l2 @ f x @ l3 @ l4 @ g x @ l5 @ h x @ l6 @ l7 @ l8
     = a @ f x @ b @ g x @ c @ h x @ d"
  by (rule exI [of _ "l1 @ l2"], rule exI [of _ "l3 @ l4"], rule exI [of _ l5],
      rule exI [of _ "l6 @ l7 @ l8"]) simp

lemma template_thumbnail:
  "\<exists>a b c d. \<forall>x. l1 @ f x @ l2 @ l3 @ g x @ l4 @ l5 @ h x @ l6 @ l7 @ l8
     = a @ f x @ b @ g x @ c @ h x @ d"
  by (rule exI [of _ l1], rule exI [of _ "l2 @ l3"], rule exI [of _ "l4 @ l5"],
      rule exI [of _ "l6 @ l7 @ l8"]) simp

lemma template_short_form:
  "\<exists>a b c. \<forall>v t. l1 @ l2 @ v @ l3 @ t @ l4 @ l5 @ l6 @ l7 @ l8 = a @ v @ b @ t @ c"
  by (rule exI [of _ "l1 @ l2"], rule exI [of _ l3], rule exI [of _ "l4 @ l5 @ l6 @ l7 @ l8"]) simp

lemma template_long_form:
  "\<exists>d e. \<forall>t. l1 @ l2 @ t @ l3 @ l4 @ l5 @ l6 @ l7 @ l8 @ l9 @ l10 @ l11 = d @ t @ e"
  by (rule exI [of _ "l1 @ l2"],
      rule exI [of _ "l3 @ l4 @ l5 @ l6 @ l7 @ l8 @ l9 @ l10 @ l11"]) simp

lemma template_caption:
  "\<exists>a1 a2 a3 a4. \<forall>x.
     (if n x = k1 then l1 @ e x else if n x = k2 then l2 @ e x
      else if n x = k3 then l3 @ e x else l4 @ e x)
     \<in> {a1 @ e x, a2 @ e x, a3 @ e x, a4 @ e x}"
  by (rule exI [of _ l1], rule exI [of _ l2], rule exI [of _ l3], rule exI [of _ l4]) simp

section \<open>One handler, one call\<close>

lemma ordinary_cases:
  "ordinary gm w p \<longleftrightarrow> (\<exists>t. returns gm w p t) \<or> (\<exists>e. is_Exception e \<and> raises gm w p e)"
  by (auto simp: ordinary_def returns_def raises_def split: sum.splits)

lemma generate_caption_calls:
  "calls (snd (generate_caption U gm r w)) = calls w @ [caption_prompt U r]"
  by (simp add: generate_caption_def generate_content_def Let_def split: prod.splits sum.splits)

lemma generate_hashtags_calls:
  "calls (snd (generate_hashtags gm r w)) = calls w @ [hashtags_prompt r]"
  by (simp add: generate_hashtags_def generate_content_def Let_def split: prod.splits sum.splits)

lemma generate_ideas_calls:
  "calls (snd (generate_ideas gm r w)) = calls w @ [ideas_prompt r]"
  by (simp add: generate_ideas_def generate_content_def Let_def split: prod.splits sum.splits)

lemma generate_script_calls:
  "calls (snd (generate_script U gm r w)) = calls w @ [script_prompt U r]"
  by (simp add: generate_script_def generate_content_def Let_def split: prod.splits sum.splits)

lemma generate_thumbnail_prompt_calls:
  "calls (snd (generate_thumbnail_prompt gm r w)) = calls w @ [thumbnail_prompt r]"
  by (simp add: generate_thumbnail_prompt_def generate_content_def Let_def split: prod.splits sum.splits)

lemma ordinaryE:
  assumes "ordinary gm w p"
  obtains t where "returns gm w p t" | e where "is_Exception e" "raises gm w p e"
  using assms ordinary_cases by blast

text \<open>
  An exception that is not an instance of \<open>Exception\<close> is not caught by the handlers'
  \<open>except Exception\<close> clause and leaves the handler.
\<close>

lemma generate_hashtags_not_caught:
  "raises gm w (hashtags_prompt r) e \<Longrightarrow> \<not> is_Exception e \<Longrightarrow>
   fst (generate_hashtags gm r w) = Inl e"
  by (auto simp: generate_hashtags_def generate_content_def raises_def Let_def
      split: prod.splits sum.splits)

subsection \<open>Success\<close>

lemma generate_caption_returns:
  "returns gm w (caption_prompt U r) t \<Longrightarrow>
   fst (generate_caption U gm r w) = Inr [lit ''caption'' \<mapsto> strip t]"
  by (auto simp: generate_caption_def generate_content_def returns_def Let_def
      split: prod.splits sum.splits)

lemma generate_hashtags_returns:
  "returns gm w (hashtags_prompt r) t \<Longrightarrow>
   fst (generate_hashtags gm r w) = Inr [lit ''hashtags'' \<mapsto> strip t]"
  by (auto simp: generate_hashtags_def generate_content_def returns_def Let_def
      split: prod.splits sum.splits)

lemma generate_ideas_returns:
  "returns gm w (ideas_prompt r) t \<Longrightarrow>
   fst (generate_ideas gm r w) = Inr [lit ''ideas'' \<mapsto> strip t]"
  by (auto simp: generate_ideas_def generate_content_def returns_def Let_def
      split: prod.splits sum.splits)

lemma generate_script_returns:
  "returns gm w (script_prompt U r) t \<Longrightarrow>
   fst (generate_script U gm r w) = Inr [lit ''script'' \<mapsto> strip t]"
  by (auto simp: generate_script_def generate_content_def returns_def Let_def
      split: prod.splits sum.splits)

lemma generate_thumbnail_prompt_returns:
  "returns gm w (thumbnail_prompt r) t \<Longrightarrow>
   fst (generate_thumbnail_prompt gm r w) = Inr [lit ''prompt'' \<mapsto> strip t]"
  by (auto simp: generate_thumbnail_prompt_def generate_content_def returns_def Let_def
      split: prod.splits sum.splits)

subsection \<open>Failure\<close>

lemma generate_caption_raises:
  "raises gm w (caption_prompt U r) e \<Longrightarrow>
   fst (generate_caption U gm r w) =
     (if is_Exception e
      then Inr [lit ''error'' \<mapsto> cross_mark @ lit '' Failed to generate caption. Reason: '' @ str e]
      else Inl e)"
  by (auto simp: generate_caption_def generate_content_def raises_def Let_def
      split: prod.splits sum.splits)

lemma generate_hashtags_raises:
  "raises gm w (hashtags_prompt r) e \<Longrightarrow>
   fst (generate_hashtags gm r w) = (if is_Exception e then Inr [lit ''error'' \<mapsto> str e] else Inl e)"
  by (auto simp: generate_hashtags_def generate_content_def raises_def Let_def
      split: prod.splits sum.splits)

lemma generate_ideas_raises:
  "raises gm w (ideas_prompt r) e \<Longrightarrow>
   fst (generate_ideas gm r w) =
     (if is_Exception e
      then Inr [lit ''error'' \<mapsto> cross_mark @ lit '' Failed to generate ideas. Reason: '' @ str e]
      else Inl e)"
  by (auto simp: generate_ideas_def generate_content_def raises_def Let_def
      split: prod.splits sum.splits)

lemma generate_script_raises:
  "raises gm w (script_prompt U r) e \<Longrightarrow>
   fst (generate_script U gm r w) =
     (if is_Exception e
      then Inr [lit ''error'' \<mapsto> cross_mark @ lit '' Failed to generate script. Please try again later.'']
      else Inl e)"
  by (auto simp: generate_script_def generate_content_def raises_def Let_def
      split: prod.splits sum.splits)

lemma generate_thumbnail_prompt_raises:
  "raises gm w (thumbnail_prompt r) e \<Longrightarrow>
   fst (generate_thumbnail_prompt gm r w) = (if is_Exception e then Inr [lit ''error'' \<mapsto> str e] else Inl e)"
  by (auto simp: generate_thumbnail_prompt_def generate_content_def raises_def Let_def
      split: prod.splits sum.splits)


section \<open>Evaluating the test doubles\<close>

lemma stub_returns: "returns stub_model w p (lit ''  Fresh kicks!  '')"
  by (simp add: returns_def stub_model_def)

lemma strip_fresh: "strip (lit ''  Fresh kicks!  '') = lit ''Fresh kicks!''"
  by (simp add: strip_def lit_def isspace_def)

lemma failing_raises: "raises failing_model w p (Exn True (lit ''quota exceeded''))"
  by (simp add: raises_def failing_model_def)

lemma blocked_raises: "raises blocked_model w p (Exn True (lit ''no valid part''))"
  by (simp add: raises_def blocked_model_def)

lemma stub_ordinary: "ordinary stub_model w p"
  by (simp add: ordinary_def stub_model_def)

lemma failing_ordinary: "ordinary failing_model w p"
  by (simp add: ordinary_def failing_model_def)

lemma blocked_ordinary: "ordinary blocked_model w p"
  by (simp add: ordinary_def blocked_model_def)

section \<open>Properties of the endpoints\<close>

text \<open>
  C7. The health endpoint \<open>GET /\<close> returns the same fixed message body in every world,
  whatever the state of the generation collaborator, and leaves the world as it found it:
  the trace of calls to the collaborator is unchanged, so no call is made.
\<close>

theorem root_fixed_message:
  "fst (root w) = Inr [lit ''message'' \<mapsto> check_mark @ lit '' SnapBoost AI backend is running!'']
   \<and> fst (root w) = fst (root w')
   \<and> snd (root w) = w
   \<and> calls (snd (root w)) = calls w"
  by (simp add: root_def)

text \<open>
  C4. Each of the five generation endpoints sends exactly one prompt to the collaborator
  per request: the trace of calls grows by exactly the composed prompt. When the call
  succeeds with response text \<open>x\<close>, the handler returns the body whose only entry maps
  the endpoint's success field (\<open>caption\<close>, \<open>hashtags\<close>, \<open>ideas\<close>, \<open>script\<close>,
  \<open>prompt\<close>) to \<open>x\<close> with leading and trailing whitespace stripped.
\<close>

theorem one_call_and_trimmed_text:
  "(calls (snd (generate_caption U gm c w)) = calls w @ [caption_prompt U c]
    \<and> (returns gm w (caption_prompt U c) x \<longrightarrow>
         fst (generate_caption U gm c w) = Inr [lit ''caption'' \<mapsto> strip x]))
   \<and> (calls (snd (generate_hashtags gm h w)) = calls w @ [hashtags_prompt h]
    \<and> (returns gm w (hashtags_prompt h) x \<longrightarrow>
         fst (generate_hashtags gm h w) = Inr [lit ''hashtags'' \<mapsto> strip x]))
   \<and> (calls (snd (generate_ideas gm i w)) = calls w @ [ideas_prompt i]
    \<and> (returns gm w (ideas_prompt i) x \<longrightarrow>
         fst (generate_ideas gm i w) = Inr [lit ''ideas'' \<mapsto> strip x]))
   \<and> (calls (snd (generate_script U gm s w)) = calls w @ [script_prompt U s]
    \<and> (returns gm w (script_prompt U s) x \<longrightarrow>
         fst (generate_script U gm s w) = Inr [lit ''script'' \<mapsto> strip x]))
   \<and> (calls (snd (generate_thumbnail_prompt gm t w)) = calls w @ [thumbnail_prompt t]
    \<and> (returns gm w (thumbnail_prompt t) x \<longrightarrow>
         fst (generate_thumbnail_prompt gm t w) = Inr [lit ''prompt'' \<mapsto> strip x]))"
  by (intro conjI impI generate_caption_calls generate_hashtags_calls generate_ideas_calls
      generate_script_calls generate_thumbnail_prompt_calls generate_caption_returns
      generate_hashtags_returns generate_ideas_returns generate_script_returns
      generate_thumbnail_prompt_returns)

theorem one_call_and_trimmed_text_witness:
  "fst (generate_caption (map ascii_lower) stub_model
          \<lparr>event = lit ''sneaker launch'', choice = lit ''Caption''\<rparr> world0)
     = Inr [lit ''caption'' \<mapsto> lit ''Fresh kicks!'']
   \<and> fst (generate_hashtags stub_model \<lparr>caption = lit ''New drop''\<rparr> world0)
     = Inr [lit ''hashtags'' \<mapsto> lit ''Fresh kicks!'']
   \<and> fst (generate_ideas stub_model
          \<lparr>IdeaRequest.platform = lit ''YouTube'', niche = lit ''shoes'', audience_type = lit ''teens''\<rparr> world0)
     = Inr [lit ''ideas'' \<mapsto> lit ''Fresh kicks!'']
   \<and> fst (generate_script (map ascii_lower) stub_model
          \<lparr>video_type = lit ''Reel'', topic = lit ''shoes''\<rparr> world0)
     = Inr [lit ''script'' \<mapsto> lit ''Fresh kicks!'']
   \<and> fst (generate_thumbnail_prompt stub_model
          \<lparr>ThumbnailPromptRequest.topic = lit ''shoes'', style = lit ''bold'', platform = lit ''YouTube''\<rparr> world0)
     = Inr [lit ''prompt'' \<mapsto> lit ''Fresh kicks!'']
   \<and> length (calls (snd (generate_hashtags stub_model \<lparr>caption = lit ''New drop''\<rparr> world0))) = 1"
  using one_call_and_trimmed_text [of "map ascii_lower" stub_model
      "\<lparr>event = lit ''sneaker launch'', choice = lit ''Caption''\<rparr>" world0
      "lit ''  Fresh kicks!  ''" "\<lparr>caption = lit ''New drop''\<rparr>"
      "\<lparr>IdeaRequest.platform = lit ''YouTube'', niche = lit ''shoes'', audience_type = lit ''teens''\<rparr>"
      "\<lparr>video_type = lit ''Reel'', topic = lit ''shoes''\<rparr>"
      "\<lparr>ThumbnailPromptRequest.topic = lit ''shoes'', style = lit ''bold'', platform = lit ''YouTube''\<rparr>"]
  by (simp add: stub_returns strip_fresh world0_def)

text \<open>
  C5. When the collaborator fails with an exception \<open>e\<close> (an instance of \<open>Exception\<close>,
  raised by the call or by reading the response text), every generation endpoint catches
  it: the handler returns normally a body with the key \<open>error\<close>, which FastAPI answers
  with status 200, no exception leaves the handler, and the trace holds exactly one call
  for the request, so nothing is retried.
\<close>

theorem failure_is_caught:
  assumes "is_Exception e"
  shows "(raises gm w (caption_prompt U c) e \<longrightarrow>
            (\<exists>m. fst (generate_caption U gm c w) = Inr [lit ''error'' \<mapsto> m])
            \<and> status_code (fst (generate_caption U gm c w)) = 200
            \<and> calls (snd (generate_caption U gm c w)) = calls w @ [caption_prompt U c])
       \<and> (raises gm w (hashtags_prompt h) e \<longrightarrow>
            (\<exists>m. fst (generate_hashtags gm h w) = Inr [lit ''error'' \<mapsto> m])
            \<and> status_code (fst (generate_hashtags gm h w)) = 200
            \<and> calls (snd (generate_hashtags gm h w)) = calls w @ [hashtags_prompt h])
       \<and> (raises gm w (ideas_prompt i) e \<longrightarrow>
            (\<exists>m. fst (generate_ideas gm i w) = Inr [lit ''error'' \<mapsto> m])
            \<and> status_code (fst (generate_ideas gm i w)) = 200
            \<and> calls (snd (generate_ideas gm i w)) = calls w @ [ideas_prompt i])
       \<and> (raises gm w (script_prompt U s) e \<longrightarrow>
            (\<exists>m. fst (generate_script U gm s w) = Inr [lit ''error'' \<mapsto> m])
            \<and> status_code (fst (generate_script U gm s w)) = 200
            \<and> calls (snd (generate_script U gm s w)) = calls w @ [script_prompt U s])
       \<and> (raises gm w (thumbnail_prompt t) e \<longrightarrow>
            (\<exists>m. fst (generate_thumbnail_prompt gm t w) = Inr [lit ''error'' \<mapsto> m])
            \<and> status_code (fst (generate_thumbnail_prompt gm t w)) = 200
            \<and> calls (snd (generate_thumbnail_prompt gm t w)) = calls w @ [thumbnail_prompt t])"
proof (intro conjI impI)
  assume "raises gm w (caption_prompt U c) e"
  then have r: "fst (generate_caption U gm c w) =
      Inr [lit ''error'' \<mapsto> cross_mark @ lit '' Failed to generate caption. Reason: '' @ str e]"
    using assms by (simp add: generate_caption_raises)
  show "\<exists>m. fst (generate_caption U gm c w) = Inr [lit ''error'' \<mapsto> m]"
    using r by blast
  show "status_code (fst (generate_caption U gm c w)) = 200"
    using r by (simp add: status_code_def)
next
  assume "raises gm w (hashtags_prompt h) e"
  then have r: "fst (generate_hashtags gm h w) = Inr [lit ''error'' \<mapsto> str e]"
    using assms by (simp add: generate_hashtags_raises)
  show "\<exists>m. fst (generate_hashtags gm h w) = Inr [lit ''error'' \<mapsto> m]"
    using r by blast
  show "status_code (fst (generate_hashtags gm h w)) = 200"
    using r by (simp add: status_code_def)
next
  assume "raises gm w (ideas_prompt i) e"
  then have r: "fst (generate_ideas gm i w) =
      Inr [lit ''error'' \<mapsto> cross_mark @ lit '' Failed to generate ideas. Reason: '' @ str e]"
    using assms by (simp add: generate_ideas_raises)
  show "\<exists>m. fst (generate_ideas gm i w) = Inr [lit ''error'' \<mapsto> m]"
    using r by blast
  show "status_code (fst (generate_ideas gm i w)) = 200"
    using r by (simp add: status_code_def)
next
  assume "raises gm w (script_prompt U s) e"
  then have r: "fst (generate_script U gm s w) =
      Inr [lit ''error'' \<mapsto> cross_mark @ lit '' Failed to generate script. Please try again later.'']"
    using assms by (simp add: generate_script_raises)
  show "\<exists>m. fst (generate_script U gm s w) = Inr [lit ''error'' \<mapsto> m]"
    using r by blast
  show "status_code (fst (generate_script U gm s w)) = 200"
    using r by (simp add: status_code_def)
next
  assume "raises gm w (thumbnail_prompt t) e"
  then have r: "fst (generate_thumbnail_prompt gm t w) = Inr [lit ''error'' \<mapsto> str e]"
    using assms by (simp add: generate_thumbnail_prompt_raises)
  show "\<exists>m. fst (generate_thumbnail_prompt gm t w) = Inr [lit ''error'' \<mapsto> m]"
    using r by blast
  show "status_code (fst (generate_thumbnail_prompt gm t w)) = 200"
    using r by (simp add: status_code_def)
qed (rule generate_caption_calls generate_hashtags_calls generate_ideas_calls
      generate_script_calls generate_thumbnail_prompt_calls)+

theorem failure_is_caught_witness:
  "status_code (fst (generate_caption (map ascii_lower) failing_model
        \<lparr>event = lit ''sneaker launch'', choice = lit ''Caption''\<rparr> world0)) = 200
   \<and> status_code (fst (generate_hashtags blocked_model \<lparr>caption = lit ''New drop''\<rparr> world0)) = 200
   \<and> status_code (fst (generate_ideas failing_model
        \<lparr>IdeaRequest.platform = lit ''YouTube'', niche = lit ''shoes'', audience_type = lit ''teens''\<rparr>
        world0)) = 200
   \<and> status_code (fst (generate_script (map ascii_lower) blocked_model
        \<lparr>video_type = lit ''Reel'', topic = lit ''shoes''\<rparr> world0)) = 200
   \<and> status_code (fst (generate_thumbnail_prompt failing_model
        \<lparr>ThumbnailPromptRequest.topic = lit ''shoes'', style = lit ''bold'', platform = lit ''YouTube''\<rparr>
        world0)) = 200
   \<and> length (calls (snd (generate_script (map ascii_lower) blocked_model
        \<lparr>video_type = lit ''Reel'', topic = lit ''shoes''\<rparr> world0))) = 1"
  using
    failure_is_caught [of "Exn True (lit ''quota exceeded'')" failing_model world0
      "map ascii_lower" "\<lparr>event = lit ''sneaker launch'', choice = lit ''Caption''\<rparr>"
      "\<lparr>caption = lit ''New drop''\<rparr>"
      "\<lparr>IdeaRequest.platform = lit ''YouTube'', niche = lit ''shoes'', audience_type = lit ''teens''\<rparr>"
      "\<lparr>video_type = lit ''Reel'', topic = lit ''shoes''\<rparr>"
      "\<lparr>ThumbnailPromptRequest.topic = lit ''shoes'', style = lit ''bold'', platform = lit ''YouTube''\<rparr>"]
    failure_is_caught [of "Exn True (lit ''no valid part'')" blocked_model world0
      "map ascii_lower" "\<lparr>event = lit ''sneaker launch'', choice = lit ''Caption''\<rparr>"
      "\<lparr>caption = lit ''New drop''\<rparr>"
      "\<lparr>IdeaRequest.platform = lit ''YouTube'', niche = lit ''shoes'', audience_type = lit ''teens''\<rparr>"
      "\<lparr>video_type = lit ''Reel'', topic = lit ''shoes''\<rparr>"
      "\<lparr>ThumbnailPromptRequest.topic = lit ''shoes'', style = lit ''bold'', platform = lit ''YouTube''\<rparr>"]
  by (simp add: failing_raises blocked_raises world0_def)

text \<open>
  C8. For every generation endpoint and every ordinary outcome of the collaborator call
  (a success, or a failure that is an \<open>Exception\<close>), the returned body has exactly one
  key: the endpoint's success field or \<open>error\<close>. The key \<open>error\<close> differs from every
  success field, so a body never holds both; the value under the key is a string by the
  type of bodies.
\<close>

theorem body_has_exactly_one_key:
  "(ordinary gm w (caption_prompt U c) \<longrightarrow>
      (\<exists>b. fst (generate_caption U gm c w) = Inr b \<and> (dom b = {lit ''caption''} \<or> dom b = {lit ''error''})))
   \<and> (ordinary gm w (hashtags_prompt h) \<longrightarrow>
      (\<exists>b. fst (generate_hashtags gm h w) = Inr b \<and> (dom b = {lit ''hashtags''} \<or> dom b = {lit ''error''})))
   \<and> (ordinary gm w (ideas_prompt i) \<longrightarrow>
      (\<exists>b. fst (generate_ideas gm i w) = Inr b \<and> (dom b = {lit ''ideas''} \<or> dom b = {lit ''error''})))
   \<and> (ordinary gm w (script_prompt U s) \<longrightarrow>
      (\<exists>b. fst (generate_script U gm s w) = Inr b \<and> (dom b = {lit ''script''} \<or> dom b = {lit ''error''})))
   \<and> (ordinary gm w (thumbnail_prompt t) \<longrightarrow>
      (\<exists>b. fst (generate_thumbnail_prompt gm t w) = Inr b \<and> (dom b = {lit ''prompt''} \<or> dom b = {lit ''error''})))
   \<and> lit ''error'' \<notin> {lit ''caption'', lit ''hashtags'', lit ''ideas'', lit ''script'', lit ''prompt''}"
proof (intro conjI impI)
  assume "ordinary gm w (caption_prompt U c)"
  then show "\<exists>b. fst (generate_caption U gm c w) = Inr b \<and> (dom b = {lit ''caption''} \<or> dom b = {lit ''error''})"
  proof (cases rule: ordinaryE)
    case (1 x)
    then show ?thesis by (simp add: generate_caption_returns)
  next
    case (2 e)
    then show ?thesis by (simp add: generate_caption_raises)
  qed
next
  assume "ordinary gm w (hashtags_prompt h)"
  then show "\<exists>b. fst (generate_hashtags gm h w) = Inr b \<and> (dom b = {lit ''hashtags''} \<or> dom b = {lit ''error''})"
  proof (cases rule: ordinaryE)
    case (1 x)
    then show ?thesis by (simp add: generate_hashtags_returns)
  next
    case (2 e)
    then show ?thesis by (simp add: generate_hashtags_raises)
  qed
next
  assume "ordinary gm w (ideas_prompt i)"
  then show "\<exists>b. fst (generate_ideas gm i w) = Inr b \<and> (dom b = {lit ''ideas''} \<or> dom b = {lit ''error''})"
  proof (cases rule: ordinaryE)
    case (1 x)
    then show ?thesis by (simp add: generate_ideas_returns)
  next
    case (2 e)
    then show ?thesis by (simp add: generate_ideas_raises)
  qed
next
  assume "ordinary gm w (script_prompt U s)"
  then show "\<exists>b. fst (generate_script U gm s w) = Inr b \<and> (dom b = {lit ''script''} \<or> dom b = {lit ''error''})"
  proof (cases rule: ordinaryE)
    case (1 x)
    then show ?thesis by (simp add: generate_script_returns)
  next
    case (2 e)
    then show ?thesis by (simp add: generate_script_raises)
  qed
next
  assume "ordinary gm w (thumbnail_prompt t)"
  then show "\<exists>b. fst (generate_thumbnail_prompt gm t w) = Inr b \<and> (dom b = {lit ''prompt''} \<or> dom b = {lit ''error''})"
  proof (cases rule: ordinaryE)
    case (1 x)
    then show ?thesis by (simp add: generate_thumbnail_prompt_returns)
  next
    case (2 e)
    then show ?thesis by (simp add: generate_thumbnail_prompt_raises)
  qed
next
  show "lit ''error'' \<notin> {lit ''caption'', lit ''hashtags'', lit ''ideas'', lit ''script'', lit ''prompt''}"
    by (simp add: lit_def)
qed

theorem body_has_exactly_one_key_witness:
  "(\<exists>b. fst (generate_caption (map ascii_lower) stub_model
        \<lparr>event = lit ''sneaker launch'', choice = lit ''Caption''\<rparr> world0) = Inr b
        \<and> (dom b = {lit ''caption''} \<or> dom b = {lit ''error''}))
   \<and> (\<exists>b. fst (generate_ideas failing_model
        \<lparr>IdeaRequest.platform = lit ''YouTube'', niche = lit ''shoes'', audience_type = lit ''teens''\<rparr>
        world0) = Inr b
        \<and> (dom b = {lit ''ideas''} \<or> dom b = {lit ''error''}))
   \<and> (\<exists>b. fst (generate_script (map ascii_lower) blocked_model
        \<lparr>video_type = lit ''Reel'', topic = lit ''shoes''\<rparr> world0) = Inr b
        \<and> (dom b = {lit ''script''} \<or> dom b = {lit ''error''}))"
  using
    body_has_exactly_one_key [of stub_model world0 "map ascii_lower"
      "\<lparr>event = lit ''sneaker launch'', choice = lit ''Caption''\<rparr>"]
    body_has_exactly_one_key [of failing_model world0 _ _ _
      "\<lparr>IdeaRequest.platform = lit ''YouTube'', niche = lit ''shoes'', audience_type = lit ''teens''\<rparr>"]
    body_has_exactly_one_key [of blocked_model world0 "map ascii_lower" _ _ _
      "\<lparr>video_type = lit ''Reel'', topic = lit ''shoes''\<rparr>"]
  by (simp only: stub_ordinary failing_ordinary blocked_ordinary simp_thms)

text \<open>
  C1, as stated, fails: the caption endpoint does not return the collaborator's message
  itself. With a collaborator that raises \<open>quota exceeded\<close>, the error string is not
  \<open>quota exceeded\<close>.
\<close>

theorem caption_error_counterexample:
  "fst (generate_caption (map ascii_lower) failing_model
          \<lparr>event = lit ''sneaker launch'', choice = lit ''caption''\<rparr> world0)
   \<noteq> Inr [lit ''error'' \<mapsto> lit ''quota exceeded'']"
proof
  assume "fst (generate_caption (map ascii_lower) failing_model
          \<lparr>event = lit ''sneaker launch'', choice = lit ''caption''\<rparr> world0)
        = Inr [lit ''error'' \<mapsto> lit ''quota exceeded'']"
  then have "[lit ''error'' \<mapsto> cross_mark @ lit '' Failed to generate caption. Reason: '' @ lit ''quota exceeded'']
      = [lit ''error'' \<mapsto> lit ''quota exceeded'']"
    using generate_caption_raises [OF failing_raises] by simp
  then have "cross_mark @ lit '' Failed to generate caption. Reason: '' @ lit ''quota exceeded''
      = lit ''quota exceeded''"
    by (rule map_upd_eqD1)
  then show False
    by (simp add: cross_mark_def lit_def)
qed

text \<open>
  C1, amended. When the collaborator fails with an \<open>Exception\<close> \<open>e\<close>: the hashtags and
  thumbnail-prompt endpoints return \<open>error\<close> equal to the message \<open>str(e)\<close> exactly; the
  caption and ideas endpoints return the message after a fixed endpoint-specific prefix;
  the script endpoint returns one fixed string, whatever the message.
\<close>

theorem error_message_by_endpoint:
  assumes "is_Exception e"
  shows "(raises gm w (hashtags_prompt h) e \<longrightarrow>
            fst (generate_hashtags gm h w) = Inr [lit ''error'' \<mapsto> str e])
       \<and> (raises gm w (thumbnail_prompt t) e \<longrightarrow>
            fst (generate_thumbnail_prompt gm t w) = Inr [lit ''error'' \<mapsto> str e])
       \<and> (raises gm w (caption_prompt U c) e \<longrightarrow>
            fst (generate_caption U gm c w) =
              Inr [lit ''error'' \<mapsto> cross_mark @ lit '' Failed to generate caption. Reason: '' @ str e])
       \<and> (raises gm w (ideas_prompt i) e \<longrightarrow>
            fst (generate_ideas gm i w) =
              Inr [lit ''error'' \<mapsto> cross_mark @ lit '' Failed to generate ideas. Reason: '' @ str e])
       \<and> (raises gm w (script_prompt U s) e \<longrightarrow>
            fst (generate_script U gm s w) =
              Inr [lit ''error'' \<mapsto> cross_mark @ lit '' Failed to generate script. Please try again later.''])"
  using assms
  by (simp add: generate_hashtags_raises generate_thumbnail_prompt_raises generate_caption_raises
      generate_ideas_raises generate_script_raises)

theorem error_message_by_endpoint_witness:
  "fst (generate_hashtags failing_model \<lparr>caption = lit ''New drop''\<rparr> world0)
     = Inr [lit ''error'' \<mapsto> lit ''quota exceeded'']
   \<and> fst (generate_thumbnail_prompt blocked_model
        \<lparr>ThumbnailPromptRequest.topic = lit ''shoes'', style = lit ''bold'', platform = lit ''YouTube''\<rparr>
        world0) = Inr [lit ''error'' \<mapsto> lit ''no valid part'']
   \<and> fst (generate_caption (map ascii_lower) failing_model
        \<lparr>event = lit ''sneaker launch'', choice = lit ''Caption''\<rparr> world0)
     = Inr [lit ''error'' \<mapsto> cross_mark @ lit '' Failed to generate caption. Reason: quota exceeded'']
   \<and> fst (generate_ideas failing_model
        \<lparr>IdeaRequest.platform = lit ''YouTube'', niche = lit ''shoes'', audience_type = lit ''teens''\<rparr>
        world0)
     = Inr [lit ''error'' \<mapsto> cross_mark @ lit '' Failed to generate ideas. Reason: quota exceeded'']
   \<and> fst (generate_script (map ascii_lower) failing_model
        \<lparr>video_type = lit ''Reel'', topic = lit ''shoes''\<rparr> world0)
     = Inr [lit ''error'' \<mapsto> cross_mark @ lit '' Failed to generate script. Please try again later.'']
   \<and> fst (generate_script (map ascii_lower) blocked_model
        \<lparr>video_type = lit ''Reel'', topic = lit ''shoes''\<rparr> world0)
     = Inr [lit ''error'' \<mapsto> cross_mark @ lit '' Failed to generate script. Please try again later.'']"
  using
    error_message_by_endpoint [of "Exn True (lit ''quota exceeded'')" failing_model world0
      "\<lparr>caption = lit ''New drop''\<rparr>"
      "\<lparr>ThumbnailPromptRequest.topic = lit ''shoes'', style = lit ''bold'', platform = lit ''YouTube''\<rparr>"
      "map ascii_lower" "\<lparr>event = lit ''sneaker launch'', choice = lit ''Caption''\<rparr>"
      "\<lparr>IdeaRequest.platform = lit ''YouTube'', niche = lit ''shoes'', audience_type = lit ''teens''\<rparr>"
      "\<lparr>video_type = lit ''Reel'', topic = lit ''shoes''\<rparr>"]
    error_message_by_endpoint [of "Exn True (lit ''no valid part'')" blocked_model world0
      "\<lparr>caption = lit ''New drop''\<rparr>"
      "\<lparr>ThumbnailPromptRequest.topic = lit ''shoes'', style = lit ''bold'', platform = lit ''YouTube''\<rparr>"
      "map ascii_lower" "\<lparr>event = lit ''sneaker launch'', choice = lit ''Caption''\<rparr>"
      "\<lparr>IdeaRequest.platform = lit ''YouTube'', niche = lit ''shoes'', audience_type = lit ''teens''\<rparr>"
      "\<lparr>video_type = lit ''Reel'', topic = lit ''shoes''\<rparr>"]
  by (simp add: raises_def failing_model_def blocked_model_def lit_def)

text \<open>
  C10. For every generation endpoint the prompt sent to the collaborator is determined by
  the request fields alone: two requests with equal field values, handled in any two
  worlds (any trace, any service state) and against any two collaborators, send
  character-for-character the same prompt.
\<close>

theorem prompt_is_a_function_of_the_fields:
  "(event c1 = event c2 \<and> choice c1 = choice c2 \<longrightarrow>
      last (calls (snd (generate_caption U gm1 c1 w1))) = last (calls (snd (generate_caption U gm2 c2 w2))))
   \<and> (caption h1 = caption h2 \<longrightarrow>
      last (calls (snd (generate_hashtags gm1 h1 w1))) = last (calls (snd (generate_hashtags gm2 h2 w2))))
   \<and> (IdeaRequest.platform i1 = IdeaRequest.platform i2 \<and> niche i1 = niche i2
        \<and> audience_type i1 = audience_type i2 \<longrightarrow>
      last (calls (snd (generate_ideas gm1 i1 w1))) = last (calls (snd (generate_ideas gm2 i2 w2))))
   \<and> (video_type s1 = video_type s2 \<and> ScriptInput.topic s1 = ScriptInput.topic s2 \<longrightarrow>
      last (calls (snd (generate_script U gm1 s1 w1))) = last (calls (snd (generate_script U gm2 s2 w2))))
   \<and> (ThumbnailPromptRequest.topic t1 = ThumbnailPromptRequest.topic t2 \<and> style t1 = style t2
        \<and> ThumbnailPromptRequest.platform t1 = ThumbnailPromptRequest.platform t2 \<longrightarrow>
      last (calls (snd (generate_thumbnail_prompt gm1 t1 w1)))
        = last (calls (snd (generate_thumbnail_prompt gm2 t2 w2))))"
  by (simp add: generate_caption_calls generate_hashtags_calls generate_ideas_calls
      generate_script_calls generate_thumbnail_prompt_calls
      caption_prompt_def hashtags_prompt_def ideas_prompt_def script_prompt_def thumbnail_prompt_def
      Let_def)

theorem prompt_is_a_function_of_the_fields_witness:
  "last (calls (snd (generate_caption (map ascii_lower) stub_model
        \<lparr>event = lit ''sneaker launch'', choice = lit ''Caption''\<rparr> world0)))
     = last (calls (snd (generate_caption (map ascii_lower) failing_model
        \<lparr>event = lit ''sneaker launch'', choice = lit ''Caption''\<rparr>
        \<lparr>service = 7, calls = [lit ''an earlier prompt'']\<rparr>)))
   \<and> last (calls (snd (generate_script (map ascii_lower) blocked_model
        \<lparr>video_type = lit ''Reel'', topic = lit ''shoes''\<rparr> world0)))
     = last (calls (snd (generate_script (map ascii_lower) stub_model
        \<lparr>video_type = lit ''Reel'', topic = lit ''shoes''\<rparr>
        \<lparr>service = 7, calls = [lit ''an earlier prompt'']\<rparr>)))"
  using
    prompt_is_a_function_of_the_fields [of
      "\<lparr>event = lit ''sneaker launch'', choice = lit ''Caption''\<rparr>"
      "\<lparr>event = lit ''sneaker launch'', choice = lit ''Caption''\<rparr>"
      "map ascii_lower" stub_model world0 failing_model
      "\<lparr>service = 7, calls = [lit ''an earlier prompt'']\<rparr>"]
    prompt_is_a_function_of_the_fields [of _ _ "map ascii_lower" blocked_model world0 stub_model
      "\<lparr>service = 7, calls = [lit ''an earlier prompt'']\<rparr>" _ _ _ _
      "\<lparr>video_type = lit ''Reel'', topic = lit ''shoes''\<rparr>"
      "\<lparr>video_type = lit ''Reel'', topic = lit ''shoes''\<rparr>"]
  by simp

text \<open>
  C2. \<open>generate_caption\<close> selects its template by the trimmed, lower-cased \<open>choice\<close>:
  \<open>caption\<close> gives the prompt with \<open>catchy social media caption\<close>, \<open>idea\<close> the one
  with \<open>creative marketing ideas\<close>, \<open>launch plan\<close> the one with \<open>launch plan\<close>, and
  every other value the generic fallback, which contains the event text. A choice that is
  one of the three words in any letter case, surrounded by any whitespace, is normalised to
  that word. For the request with event \<open>sneaker launch\<close> and choice \<open>Caption\<close> the
  prompt sent to the collaborator includes
  \<open>Write a short, catchy social media caption for the launch of: sneaker launch\<close>.
\<close>

theorem caption_template_selection:
  "(lower U (strip (choice r)) = lit ''caption'' \<longrightarrow>
      caption_prompt U r = lit ''Write a short, catchy social media caption for the launch of: '' @ event r
      \<and> isin (lit ''catchy social media caption'') (caption_prompt U r))
   \<and> (lower U (strip (choice r)) = lit ''idea'' \<longrightarrow>
      caption_prompt U r = lit ''Give me creative marketing ideas for the launch of: '' @ event r
      \<and> isin (lit ''creative marketing ideas'') (caption_prompt U r))
   \<and> (lower U (strip (choice r)) = lit ''launch plan'' \<longrightarrow>
      caption_prompt U r = lit ''Create a simple and effective launch plan for: '' @ event r
      \<and> isin (lit ''launch plan'') (caption_prompt U r))
   \<and> (lower U (strip (choice r)) \<notin> {lit ''caption'', lit ''idea'', lit ''launch plan''} \<longrightarrow>
      caption_prompt U r = lit ''Tell me something helpful related to: '' @ event r
      \<and> isin (event r) (caption_prompt U r))
   \<and> (list_all isspace a \<and> list_all isspace b
        \<and> map ascii_lower v \<in> {lit ''caption'', lit ''idea'', lit ''launch plan''} \<longrightarrow>
      lower U (strip (a @ v @ b)) = map ascii_lower v)
   \<and> isin (lit ''Write a short, catchy social media caption for the launch of: sneaker launch'')
        (last (calls (snd (generate_caption U gm
           \<lparr>event = lit ''sneaker launch'', choice = lit ''Caption''\<rparr> w))))"
proof (intro conjI impI)
  assume c: "lower U (strip (choice r)) = lit ''caption''"
  then show "caption_prompt U r = lit ''Write a short, catchy social media caption for the launch of: '' @ event r"
    by (rule caption_branch)
  then show "isin (lit ''catchy social media caption'') (caption_prompt U r)"
    by (simp only: isin_caption_template)
next
  assume c: "lower U (strip (choice r)) = lit ''idea''"
  then show "caption_prompt U r = lit ''Give me creative marketing ideas for the launch of: '' @ event r"
    by (rule idea_branch)
  then show "isin (lit ''creative marketing ideas'') (caption_prompt U r)"
    by (simp only: isin_idea_template)
next
  assume c: "lower U (strip (choice r)) = lit ''launch plan''"
  then show "caption_prompt U r = lit ''Create a simple and effective launch plan for: '' @ event r"
    by (rule launch_plan_branch)
  then show "isin (lit ''launch plan'') (caption_prompt U r)"
    by (simp only: isin_launch_plan_template)
next
  assume c: "lower U (strip (choice r)) \<notin> {lit ''caption'', lit ''idea'', lit ''launch plan''}"
  then show "caption_prompt U r = lit ''Tell me something helpful related to: '' @ event r"
    by (rule fallback_branch)
  then show "isin (event r) (caption_prompt U r)"
    by (simp only: isin_suffix)
next
  assume "list_all isspace a \<and> list_all isspace b
        \<and> map ascii_lower v \<in> {lit ''caption'', lit ''idea'', lit ''launch plan''}"
  then show "lower U (strip (a @ v @ b)) = map ascii_lower v"
    using keyword_facts [of "map ascii_lower v"] by (intro lower_strip_variant) simp_all
next
  have n: "lower U (strip (lit ''Caption'')) = lit ''caption''"
    by (simp add: lower_def strip_def lit_def isspace_def isascii_def ascii_lower_def)
  have "caption_prompt U \<lparr>event = lit ''sneaker launch'', choice = lit ''Caption''\<rparr>
      = lit ''Write a short, catchy social media caption for the launch of: '' @ lit ''sneaker launch''"
    using caption_branch [of U "\<lparr>event = lit ''sneaker launch'', choice = lit ''Caption''\<rparr>"] n
    by simp
  also have "\<dots> = [] @ lit ''Write a short, catchy social media caption for the launch of: sneaker launch'' @ []"
    by (simp add: lit_def)
  finally show "isin (lit ''Write a short, catchy social media caption for the launch of: sneaker launch'')
        (last (calls (snd (generate_caption U gm
           \<lparr>event = lit ''sneaker launch'', choice = lit ''Caption''\<rparr> w))))"
    by (simp only: generate_caption_calls last_snoc isin_middle)
qed

theorem caption_template_selection_witness:
  "caption_prompt (map ascii_lower) \<lparr>event = lit ''sneaker launch'', choice = lit ''  CAPTION ''\<rparr>
     = lit ''Write a short, catchy social media caption for the launch of: '' @ lit ''sneaker launch''
   \<and> caption_prompt (map ascii_lower) \<lparr>event = lit ''sneaker launch'', choice = lit ''Idea''\<rparr>
     = lit ''Give me creative marketing ideas for the launch of: '' @ lit ''sneaker launch''
   \<and> caption_prompt (map ascii_lower) \<lparr>event = lit ''sneaker launch'', choice = lit ''launch Plan''\<rparr>
     = lit ''Create a simple and effective launch plan for: '' @ lit ''sneaker launch''
   \<and> caption_prompt (map ascii_lower) \<lparr>event = lit ''sneaker launch'', choice = lit ''slogan''\<rparr>
     = lit ''Tell me something helpful related to: '' @ lit ''sneaker launch''
   \<and> lower (map ascii_lower) (strip ([0xA0, 0x20] @ lit ''CaPtIoN'' @ [0x0A])) = lit ''caption''"
proof (intro conjI)
  have "lower (map ascii_lower) (strip (lit ''  CAPTION '')) = lit ''caption''"
    by (simp add: lower_def strip_def lit_def isspace_def isascii_def ascii_lower_def)
  then show "caption_prompt (map ascii_lower) \<lparr>event = lit ''sneaker launch'', choice = lit ''  CAPTION ''\<rparr>
     = lit ''Write a short, catchy social media caption for the launch of: '' @ lit ''sneaker launch''"
    using caption_template_selection [of "map ascii_lower"
      "\<lparr>event = lit ''sneaker launch'', choice = lit ''  CAPTION ''\<rparr>", THEN conjunct1]
    by simp
next
  have "lower (map ascii_lower) (strip (lit ''Idea'')) = lit ''idea''"
    by (simp add: lower_def strip_def lit_def isspace_def isascii_def ascii_lower_def)
  then show "caption_prompt (map ascii_lower) \<lparr>event = lit ''sneaker launch'', choice = lit ''Idea''\<rparr>
     = lit ''Give me creative marketing ideas for the launch of: '' @ lit ''sneaker launch''"
    using caption_template_selection [of "map ascii_lower"
      "\<lparr>event = lit ''sneaker launch'', choice = lit ''Idea''\<rparr>", THEN conjunct2, THEN conjunct1]
    by simp
next
  have "lower (map ascii_lower) (strip (lit ''launch Plan'')) = lit ''launch plan''"
    by (simp add: lower_def strip_def lit_def isspace_def isascii_def ascii_lower_def)
  then show "caption_prompt (map ascii_lower) \<lparr>event = lit ''sneaker launch'', choice = lit ''launch Plan''\<rparr>
     = lit ''Create a simple and effective launch plan for: '' @ lit ''sneaker launch''"
    using caption_template_selection [of "map ascii_lower"
      "\<lparr>event = lit ''sneaker launch'', choice = lit ''launch Plan''\<rparr>",
      THEN conjunct2, THEN conjunct2, THEN conjunct1]
    by simp
next
  have "lower (map ascii_lower) (strip (lit ''slogan'')) \<notin> {lit ''caption'', lit ''idea'', lit ''launch plan''}"
    by (simp add: lower_def strip_def lit_def isspace_def isascii_def ascii_lower_def)
  then show "caption_prompt (map ascii_lower) \<lparr>event = lit ''sneaker launch'', choice = lit ''slogan''\<rparr>
     = lit ''Tell me something helpful related to: '' @ lit ''sneaker launch''"
    using caption_template_selection [of "map ascii_lower"
      "\<lparr>event = lit ''sneaker launch'', choice = lit ''slogan''\<rparr>",
      THEN conjunct2, THEN conjunct2, THEN conjunct2, THEN conjunct1]
    by simp
next
  have "list_all isspace [0xA0, 0x20]" "list_all isspace [0x0A]"
    by (simp_all add: isspace_def)
  moreover have "map ascii_lower (lit ''CaPtIoN'') = lit ''caption''"
    by (simp add: lit_def ascii_lower_def)
  ultimately show "lower (map ascii_lower) (strip ([0xA0, 0x20] @ lit ''CaPtIoN'' @ [0x0A])) = lit ''caption''"
    using caption_template_selection [of "map ascii_lower" _ "[0xA0, 0x20]" "[0x0A]" "lit ''CaPtIoN''",
      THEN conjunct2, THEN conjunct2, THEN conjunct2, THEN conjunct2, THEN conjunct1]
    by simp
qed

text \<open>
  C3. \<open>generate_script\<close> selects the short-form template exactly when \<open>video_type\<close>
  contains \<open>short\<close> or \<open>reel\<close> case-insensitively, and the long-form template for
  every other value; the two templates never produce the same prompt. The handler strips
  \<open>video_type\<close> before lower-casing it, which does not change the test: this holds for
  every ASCII \<open>video_type\<close>, and for every \<open>video_type\<close> when the interpreter's
  lower-casing commutes with stripping whitespace.
\<close>

theorem script_template_selection:
  assumes "isascii (video_type data) \<or> (\<forall>x. lower U (strip x) = strip (lower U x))"
  shows "(contains_ci U (lit ''short'') (video_type data)
            \<or> contains_ci U (lit ''reel'') (video_type data) \<longrightarrow>
          script_prompt U data
            = short_form (lower U (strip (video_type data))) (strip (ScriptInput.topic data)))
       \<and> (\<not> (contains_ci U (lit ''short'') (video_type data)
            \<or> contains_ci U (lit ''reel'') (video_type data)) \<longrightarrow>
          script_prompt U data = long_form (strip (ScriptInput.topic data)))
       \<and> short_form v t \<noteq> long_form t'"
proof -
  have n: "lower U (strip (video_type data)) = strip (lower U (video_type data))"
    using assms by (rule lower_strip_commute)
  have s: "isin (lit ''short'') (lower U (strip (video_type data)))
      = contains_ci U (lit ''short'') (video_type data)"
    by (simp only: n isin_short_strip contains_ci_def)
  have r: "isin (lit ''reel'') (lower U (strip (video_type data)))
      = contains_ci U (lit ''reel'') (video_type data)"
    by (simp only: n isin_reel_strip contains_ci_def)
  show ?thesis
    using script_prompt_short [of U data] script_prompt_long [of U data]
      short_form_neq_long_form [of v t t']
    unfolding s r by blast
qed

theorem script_template_selection_witness:
  "script_prompt (map ascii_lower) \<lparr>video_type = [0xA0] @ lit ''YouTube SHORT'', topic = lit '' cats ''\<rparr>
     = short_form (lit ''youtube short'') (lit ''cats'')
   \<and> script_prompt (map ascii_lower) \<lparr>video_type = lit ''Instagram Reels '', topic = lit ''cats''\<rparr>
     = short_form (lit ''instagram reels'') (lit ''cats'')
   \<and> script_prompt (map ascii_lower) \<lparr>video_type = lit ''Documentary'', topic = lit ''cats''\<rparr>
     = long_form (lit ''cats'')"
proof (intro conjI)
  have h: "isascii ([0xA0] @ lit ''YouTube SHORT'')
      \<or> (\<forall>x. lower (map ascii_lower) (strip x) = strip (lower (map ascii_lower) x))"
    by (simp add: lower_strip_ascii_lower)
  have c: "contains_ci (map ascii_lower) (lit ''short'') ([0xA0] @ lit ''YouTube SHORT'')"
    by (simp add: contains_ci_def lower_def isascii_def ascii_lower_def lit_def)
  have e: "lower (map ascii_lower) (strip ([0xA0] @ lit ''YouTube SHORT'')) = lit ''youtube short''"
    "strip (lit '' cats '') = lit ''cats''"
    by (simp_all add: lower_def strip_def isspace_def isascii_def ascii_lower_def lit_def)
  show "script_prompt (map ascii_lower)
      \<lparr>video_type = [0xA0] @ lit ''YouTube SHORT'', topic = lit '' cats ''\<rparr>
     = short_form (lit ''youtube short'') (lit ''cats'')"
    using script_template_selection [of
        "\<lparr>video_type = [0xA0] @ lit ''YouTube SHORT'', topic = lit '' cats ''\<rparr>" "map ascii_lower",
        THEN conjunct1] h c e
    by simp
next
  have h: "isascii (lit ''Instagram Reels '')"
    by (simp add: isascii_def lit_def)
  have c: "contains_ci (map ascii_lower) (lit ''reel'') (lit ''Instagram Reels '')"
    by (simp add: contains_ci_def lower_def isascii_def ascii_lower_def lit_def)
  have e: "lower (map ascii_lower) (strip (lit ''Instagram Reels '')) = lit ''instagram reels''"
    "strip (lit ''cats'') = lit ''cats''"
    by (simp_all add: lower_def strip_def isspace_def isascii_def ascii_lower_def lit_def)
  show "script_prompt (map ascii_lower) \<lparr>video_type = lit ''Instagram Reels '', topic = lit ''cats''\<rparr>
     = short_form (lit ''instagram reels'') (lit ''cats'')"
    using script_template_selection [of
        "\<lparr>video_type = lit ''Instagram Reels '', topic = lit ''cats''\<rparr>" "map ascii_lower",
        THEN conjunct1] h c e
    by simp
next
  have h: "isascii (lit ''Documentary'')"
    by (simp add: isascii_def lit_def)
  have c: "\<not> contains_ci (map ascii_lower) (lit ''short'') (lit ''Documentary'')"
    "\<not> contains_ci (map ascii_lower) (lit ''reel'') (lit ''Documentary'')"
    by (simp_all add: contains_ci_def lower_def isascii_def ascii_lower_def lit_def)
  have e: "strip (lit ''cats'') = lit ''cats''"
    by (simp add: strip_def isspace_def lit_def)
  show "script_prompt (map ascii_lower) \<lparr>video_type = lit ''Documentary'', topic = lit ''cats''\<rparr>
     = long_form (lit ''cats'')"
    using script_template_selection [of
        "\<lparr>video_type = lit ''Documentary'', topic = lit ''cats''\<rparr>" "map ascii_lower",
        THEN conjunct2, THEN conjunct1] h c e
    by simp
qed


text \<open>
  C9, as stated, fails in its last part. The long-form template itself names YouTube, so
  for the video type \<open>YouTube\<close>, which takes the long-form branch, the composed prompt
  contains the value of \<open>video_type\<close>.
\<close>

theorem long_form_contains_video_type_counterexample:
  "script_prompt (map ascii_lower) \<lparr>video_type = lit ''YouTube'', topic = lit ''cats''\<rparr>
     = long_form (lit ''cats'')
   \<and> isin (lit ''YouTube'')
       (script_prompt (map ascii_lower) \<lparr>video_type = lit ''YouTube'', topic = lit ''cats''\<rparr>)"
  unfolding script_prompt_youtube by (intro conjI refl long_form_contains_youtube)

text \<open>
  C9, amended. In \<open>generate_script\<close> the short-form prompt is the fixed short-form text
  with the trimmed, lower-cased \<open>video_type\<close> after \<open>1-minute\<close> and the trimmed
  \<open>topic\<close> between the quotes, not the raw request fields: for the video type
  \<open>" Short "\<close> and the topic \<open>" cats "\<close> the prompt is the short form of \<open>short\<close>
  and \<open>cats\<close>, which differs from the short form of the raw values. The long-form prompt
  is the fixed long-form text with the trimmed \<open>topic\<close> between the quotes and no place
  for \<open>video_type\<close>: two requests that take the long-form branch with the same topic get
  the same prompt whatever their video types, so \<open>video_type\<close> only decides the branch.
\<close>

theorem script_prompt_interpolation:
  "(isin (lit ''short'') (lower U (strip (video_type data)))
      \<or> isin (lit ''reel'') (lower U (strip (video_type data))) \<longrightarrow>
    script_prompt U data =
      lit ''\<newline>'' @
      lit ''        Generate an engaging script for a 1-minute '' @
        lower U (strip (video_type data)) @
        lit '' about \"'' @ strip (ScriptInput.topic data) @ lit ''\".\<newline>'' @
      lit ''        The script should have an attention-grabbing hook in the first few seconds,\<newline>'' @
      lit ''        use a casual and high-energy tone, include visual/action suggestions,\<newline>'' @
      lit ''        and end with a strong call to action.\<newline>'' @
      lit ''        '')
   \<and> (\<not> (isin (lit ''short'') (lower U (strip (video_type data)))
      \<or> isin (lit ''reel'') (lower U (strip (video_type data)))) \<longrightarrow>
    script_prompt U data =
      lit ''\<newline>'' @
      lit ''        Generate a detailed script for a YouTube video about \"'' @
        strip (ScriptInput.topic data) @ lit ''\".\<newline>'' @
      lit ''        The script should last about 10 minutes and include:\<newline>'' @
      lit ''        - Hook in the intro\<newline>'' @
      lit ''        - Structured explanation in sections\<newline>'' @
      lit ''        - Engaging storytelling tone\<newline>'' @
      lit ''        - Visual suggestions for each section\<newline>'' @
      lit ''        - Call to action at the end\<newline>'' @
      lit ''        Format the response as a script with timestamps.\<newline>'' @
      lit ''        '')
   \<and> (\<not> (isin (lit ''short'') (lower U (strip (video_type d1)))
          \<or> isin (lit ''reel'') (lower U (strip (video_type d1))))
      \<and> \<not> (isin (lit ''short'') (lower U (strip (video_type d2)))
          \<or> isin (lit ''reel'') (lower U (strip (video_type d2))))
      \<and> ScriptInput.topic d1 = ScriptInput.topic d2 \<longrightarrow>
    script_prompt U d1 = script_prompt U d2)
   \<and> script_prompt U \<lparr>video_type = lit '' Short '', topic = lit '' cats ''\<rparr>
       = short_form (lit ''short'') (lit ''cats'')
   \<and> script_prompt U \<lparr>video_type = lit '' Short '', topic = lit '' cats ''\<rparr>
       \<noteq> short_form (lit '' Short '') (lit '' cats '')"
proof (intro conjI impI)
  assume "isin (lit ''short'') (lower U (strip (video_type data)))
      \<or> isin (lit ''reel'') (lower U (strip (video_type data)))"
  then have "script_prompt U data
      = short_form (lower U (strip (video_type data))) (strip (ScriptInput.topic data))"
    by (rule script_prompt_short)
  then show "script_prompt U data =
      lit ''\<newline>'' @
      lit ''        Generate an engaging script for a 1-minute '' @
        lower U (strip (video_type data)) @
        lit '' about \"'' @ strip (ScriptInput.topic data) @ lit ''\".\<newline>'' @
      lit ''        The script should have an attention-grabbing hook in the first few seconds,\<newline>'' @
      lit ''        use a casual and high-energy tone, include visual/action suggestions,\<newline>'' @
      lit ''        and end with a strong call to action.\<newline>'' @
      lit ''        ''"
    by (simp only: short_form_def)
next
  assume "\<not> (isin (lit ''short'') (lower U (strip (video_type data)))
      \<or> isin (lit ''reel'') (lower U (strip (video_type data))))"
  then have "script_prompt U data = long_form (strip (ScriptInput.topic data))"
    by (rule script_prompt_long)
  then show "script_prompt U data =
      lit ''\<newline>'' @
      lit ''        Generate a detailed script for a YouTube video about \"'' @
        strip (ScriptInput.topic data) @ lit ''\".\<newline>'' @
      lit ''        The script should last about 10 minutes and include:\<newline>'' @
      lit ''        - Hook in the intro\<newline>'' @
      lit ''        - Structured explanation in sections\<newline>'' @
      lit ''        - Engaging storytelling tone\<newline>'' @
      lit ''        - Visual suggestions for each section\<newline>'' @
      lit ''        - Call to action at the end\<newline>'' @
      lit ''        Format the response as a script with timestamps.\<newline>'' @
      lit ''        ''"
    by (simp only: long_form_def)
next
  assume a: "\<not> (isin (lit ''short'') (lower U (strip (video_type d1)))
          \<or> isin (lit ''reel'') (lower U (strip (video_type d1))))
      \<and> \<not> (isin (lit ''short'') (lower U (strip (video_type d2)))
          \<or> isin (lit ''reel'') (lower U (strip (video_type d2))))
      \<and> ScriptInput.topic d1 = ScriptInput.topic d2"
  from a have "script_prompt U d1 = long_form (strip (ScriptInput.topic d1))"
    by (intro script_prompt_long) blast
  moreover from a have "script_prompt U d2 = long_form (strip (ScriptInput.topic d2))"
    by (intro script_prompt_long) blast
  ultimately show "script_prompt U d1 = script_prompt U d2"
    using a by simp
next
  show "script_prompt U \<lparr>video_type = lit '' Short '', topic = lit '' cats ''\<rparr>
       = short_form (lit ''short'') (lit ''cats'')"
    by (rule script_prompt_short_cats)
next
  show "script_prompt U \<lparr>video_type = lit '' Short '', topic = lit '' cats ''\<rparr>
       \<noteq> short_form (lit '' Short '') (lit '' cats '')"
    unfolding script_prompt_short_cats by (rule short_form_raw_neq)
qed

theorem script_prompt_interpolation_witness:
  "script_prompt (map ascii_lower) \<lparr>video_type = lit '' Reel'', topic = lit '' cats ''\<rparr>
     = short_form (lit ''reel'') (lit ''cats'')
   \<and> script_prompt (map ascii_lower) \<lparr>video_type = lit ''Documentary'', topic = lit '' cats ''\<rparr>
     = long_form (lit ''cats'')
   \<and> script_prompt (map ascii_lower) \<lparr>video_type = lit ''Documentary'', topic = lit '' cats ''\<rparr>
     = script_prompt (map ascii_lower) \<lparr>video_type = lit ''Vlog'', topic = lit '' cats ''\<rparr>"
proof (intro conjI)
  have r: "lower (map ascii_lower) (strip (lit '' Reel'')) = lit ''reel''"
    by (simp add: lower_def strip_def isspace_def isascii_def ascii_lower_def lit_def)
  have d: "lower (map ascii_lower) (strip (lit ''Documentary'')) = lit ''documentary''"
    by (simp add: lower_def strip_def isspace_def isascii_def ascii_lower_def lit_def)
  have v: "lower (map ascii_lower) (strip (lit ''Vlog'')) = lit ''vlog''"
    by (simp add: lower_def strip_def isspace_def isascii_def ascii_lower_def lit_def)
  have i: "isin (lit ''reel'') (lit ''reel'')"
    "\<not> (isin (lit ''short'') (lit ''documentary'') \<or> isin (lit ''reel'') (lit ''documentary''))"
    "\<not> (isin (lit ''short'') (lit ''vlog'') \<or> isin (lit ''reel'') (lit ''vlog''))"
    by (simp_all add: lit_def)
  show "script_prompt (map ascii_lower) \<lparr>video_type = lit '' Reel'', topic = lit '' cats ''\<rparr>
     = short_form (lit ''reel'') (lit ''cats'')"
    using script_prompt_interpolation [of "map ascii_lower"
        "\<lparr>video_type = lit '' Reel'', topic = lit '' cats ''\<rparr>", THEN conjunct1] r i(1)
    by (simp add: strip_cats short_form_def)
  show "script_prompt (map ascii_lower) \<lparr>video_type = lit ''Documentary'', topic = lit '' cats ''\<rparr>
     = long_form (lit ''cats'')"
    using script_prompt_interpolation [of "map ascii_lower"
        "\<lparr>video_type = lit ''Documentary'', topic = lit '' cats ''\<rparr>",
        THEN conjunct2, THEN conjunct1] d i(2)
    by (simp add: strip_cats long_form_def)
  show "script_prompt (map ascii_lower) \<lparr>video_type = lit ''Documentary'', topic = lit '' cats ''\<rparr>
     = script_prompt (map ascii_lower) \<lparr>video_type = lit ''Vlog'', topic = lit '' cats ''\<rparr>"
    using script_prompt_interpolation [of "map ascii_lower" _
        "\<lparr>video_type = lit ''Documentary'', topic = lit '' cats ''\<rparr>"
        "\<lparr>video_type = lit ''Vlog'', topic = lit '' cats ''\<rparr>",
        THEN conjunct2, THEN conjunct2, THEN conjunct1] d v i(2,3)
    by simp
qed

text \<open>
  C6, as stated, fails for \<open>generate_script\<close>: the request fields are stripped (and the
  video type lower-cased) before interpolation. For the video type \<open>" Short "\<close> and the
  topic \<open>" cats "\<close>, neither raw field value occurs in the composed prompt.
\<close>

theorem script_fields_counterexample:
  "\<not> isin (lit '' cats '')
       (script_prompt (map ascii_lower) \<lparr>video_type = lit '' Short '', topic = lit '' cats ''\<rparr>)
   \<and> \<not> isin (lit '' Short '')
       (script_prompt (map ascii_lower) \<lparr>video_type = lit '' Short '', topic = lit '' cats ''\<rparr>)"
  unfolding script_prompt_short_cats by (intro conjI short_form_without_raw)

text \<open>
  C6, amended. The prompts of \<open>generate_hashtags\<close>, \<open>generate_ideas\<close> and
  \<open>generate_thumbnail_prompt\<close> are fixed templates around the raw request fields, and the
  prompt of \<open>generate_caption\<close> is one of four fixed prefixes followed by the raw
  \<open>event\<close>: the field values are substituted unchanged, whatever their characters and
  length. The prompt of \<open>generate_script\<close> is a fixed template around the trimmed topic
  and, in the short form only, the trimmed and lower-cased video type.
\<close>

theorem fields_substituted_into_fixed_templates:
  "(\<exists>a b. \<forall>data. hashtags_prompt data = a @ caption data @ b)
   \<and> (\<exists>a b c d. \<forall>data. ideas_prompt data
         = a @ IdeaRequest.platform data @ b @ niche data @ c @ audience_type data @ d)
   \<and> (\<exists>a b c d. \<forall>data. thumbnail_prompt data
         = a @ ThumbnailPromptRequest.platform data @ b @ ThumbnailPromptRequest.topic data
           @ c @ style data @ d)
   \<and> (\<exists>a1 a2 a3 a4. \<forall>request. caption_prompt U request
         \<in> {a1 @ event request, a2 @ event request, a3 @ event request, a4 @ event request})
   \<and> (\<exists>a b c. \<forall>v t. short_form v t = a @ v @ b @ t @ c)
   \<and> (\<exists>d e. \<forall>t. long_form t = d @ t @ e)
   \<and> (\<forall>data. script_prompt U data
           = short_form (lower U (strip (video_type data))) (strip (ScriptInput.topic data))
         \<or> script_prompt U data = long_form (strip (ScriptInput.topic data)))"
proof (intro conjI)
  show "\<exists>a b. \<forall>data. hashtags_prompt data = a @ caption data @ b"
    unfolding hashtags_prompt_def by (rule template_one_field)
  show "\<exists>a b c d. \<forall>data. ideas_prompt data
         = a @ IdeaRequest.platform data @ b @ niche data @ c @ audience_type data @ d"
    unfolding ideas_prompt_def by (rule template_ideas)
  show "\<exists>a b c d. \<forall>data. thumbnail_prompt data
         = a @ ThumbnailPromptRequest.platform data @ b @ ThumbnailPromptRequest.topic data
           @ c @ style data @ d"
    unfolding thumbnail_prompt_def by (rule template_thumbnail)
  show "\<exists>a1 a2 a3 a4. \<forall>request. caption_prompt U request
         \<in> {a1 @ event request, a2 @ event request, a3 @ event request, a4 @ event request}"
    unfolding caption_prompt_def Let_def by (rule template_caption)
  show "\<exists>a b c. \<forall>v t. short_form v t = a @ v @ b @ t @ c"
    unfolding short_form_def by (rule template_short_form)
  show "\<exists>d e. \<forall>t. long_form t = d @ t @ e"
    unfolding long_form_def by (rule template_long_form)
  show "\<forall>data. script_prompt U data
           = short_form (lower U (strip (video_type data))) (strip (ScriptInput.topic data))
         \<or> script_prompt U data = long_form (strip (ScriptInput.topic data))"
    using script_prompt_short script_prompt_long by blast
qed

end
